theory Spec2Isabelle
  imports Complex_Main
begin

section \<open>Python values shared by both modules\<close>

text \<open>
  The exceptions the two modules can meet. A function that may raise returns
  \<open>exc + 'a\<close>, with \<open>Inl\<close> for the exception that leaves it.
\<close>

datatype exc =
    IndexError | KeyError | ValueError | TypeError | AttributeError
  | AssertionError | OverflowError
  | OperationalError | IntegrityError | ProgrammingError

definition and_then :: "exc + 'a \<Rightarrow> ('a \<Rightarrow> exc + 'b) \<Rightarrow> exc + 'b" where
  "and_then m f = (case m of Inl e \<Rightarrow> Inl e | Inr x \<Rightarrow> f x)"

text \<open>\<open>xs[i]\<close> for a literal index \<open>i \<ge> 0\<close>.\<close>

definition getitem :: "'a list \<Rightarrow> nat \<Rightarrow> exc + 'a" where
  "getitem xs i = (if i < length xs then Inr (xs ! i) else Inl IndexError)"

subsection \<open>Strings (Python 2 \<open>str\<close>: a sequence of bytes)\<close>

text \<open>\<open>s.split(c)\<close> for a one-character separator: never empty, one more piece than separators.\<close>

fun split_sep :: "char \<Rightarrow> string \<Rightarrow> string list" where
  "split_sep c [] = [[]]"
| "split_sep c (x # xs) =
     (if x = c then [] # split_sep c xs
      else (case split_sep c xs of [] \<Rightarrow> [[x]] | w # ws \<Rightarrow> (x # w) # ws))"

text \<open>\<open>sep.join(xs)\<close>.\<close>

fun join :: "string \<Rightarrow> string list \<Rightarrow> string" where
  "join sep [] = []"
| "join sep [x] = x"
| "join sep (x # y # ys) = x @ sep @ join sep (y # ys)"

text \<open>\<open>s.startswith(p)\<close>.\<close>

definition startswith :: "string \<Rightarrow> string \<Rightarrow> bool" where
  "startswith p s = (take (length p) s = p)"

text \<open>The characters \<open>str.strip()\<close> and \<open>int()\<close> treat as white space: space, \<open>\t \n \v \f \r\<close>.\<close>

definition is_space :: "char \<Rightarrow> bool" where
  "is_space c = (c = CHR '' '' \<or> c = CHR 0x09 \<or> c = CHR 0x0A \<or> c = CHR 0x0B
                 \<or> c = CHR 0x0C \<or> c = CHR 0x0D)"

definition strip :: "string \<Rightarrow> string" where
  "strip s = rev (dropWhile is_space (rev (dropWhile is_space s)))"

subsection \<open>Integers and their decimal text\<close>

definition is_digit :: "char \<Rightarrow> bool" where
  "is_digit c = (c \<in> set ''0123456789'')"

definition digit_val :: "char \<Rightarrow> int" where
  "digit_val c = of_char c - 48"

definition digits_val :: "string \<Rightarrow> int" where
  "digits_val ds = foldl (\<lambda>a c. 10 * a + digit_val c) 0 ds"

text \<open>
  \<open>int(s)\<close> on a \<open>str\<close>: surrounding white space is dropped, one sign is allowed, and
  at least one decimal digit must follow; anything else is a \<open>ValueError\<close>. Python 2
  returns a \<open>long\<close> where the digits exceed a machine word, so the value is unbounded.
\<close>

definition int_of_str :: "string \<Rightarrow> exc + int" where
  "int_of_str s =
     (let t = strip s;
          neg = (t \<noteq> [] \<and> hd t = CHR ''-'');
          ds = (if t \<noteq> [] \<and> (hd t = CHR ''-'' \<or> hd t = CHR ''+'') then tl t else t)
      in if ds \<noteq> [] \<and> list_all is_digit ds
         then Inr (if neg then - digits_val ds else digits_val ds)
         else Inl ValueError)"

definition digit_char :: "int \<Rightarrow> char" where
  "digit_char d = char_of (48 + d)"

text \<open>The decimal digits of \<open>n \<ge> 0\<close>, most significant first.\<close>

function show_nat :: "int \<Rightarrow> string" where
  "show_nat n = (if n < 10 then [digit_char n] else show_nat (n div 10) @ [digit_char (n mod 10)])"
  by pat_completeness auto
termination
  by (relation "measure nat") auto

declare show_nat.simps [simp del]

text \<open>\<open>'%i' % n\<close> for an integer \<open>n\<close>.\<close>

definition show_int :: "int \<Rightarrow> string" where
  "show_int i = (if i < 0 then CHR ''-'' # show_nat (- i) else show_nat i)"

section \<open>The minute-bar provider (pytradelib/data/providers/yahoo/minute.py)\<close>

subsection \<open>Dates, bars and the interpreter's environment\<close>

text \<open>
  A naive \<open>datetime\<close>: the seconds of its calendar fields counted from
  1970-01-01 00:00:00 with no time zone applied, and its microsecond field.
  \<open>calendar.timegm(dt.timetuple())\<close> is then the seconds, the microseconds dropped.
\<close>

record datetime =
  dt_seconds :: int
  dt_microsecond :: int

definition timegm_timetuple :: "datetime \<Rightarrow> int" where
  "timegm_timetuple dt = dt_seconds dt"

text \<open>
  A \<open>Bar\<close> holds the seven constructor arguments, read through its getters.
  Python floats stay abstract: the type \<open>'f\<close> carries only the comparison \<open>\<le>\<close>
  and a zero, with no law assumed of either, so nothing proved below depends on how
  floats round or on NaN.
\<close>

record 'f bar =
  get_date_time :: datetime
  get_open :: 'f
  get_high :: 'f
  get_low :: 'f
  get_close :: 'f
  get_volume :: 'f
  get_adj_close :: 'f

text \<open>
  What the module takes from the interpreter, the host and the modules \<open>settings\<close>
  and \<open>utils\<close>, none of which is among the sources:
  \<^item> \<open>float_of_str\<close> is \<open>float(s)\<close>; \<open>fmt_2f\<close> is \<open>'%.2f' % x\<close>; \<open>fmt_i\<close> is
    \<open>'%i' % x\<close> on a float, which raises on NaN and infinities;
  \<^item> \<open>localtime\<close> gives the naive local seconds of an epoch time on this host, or the
    exception \<open>datetime.fromtimestamp\<close> raises when the time is out of range;
  \<^item> \<open>strptime\<close> and \<open>strftime\<close> are those of \<open>datetime\<close> at
    \<open>settings.DATE_FORMAT\<close>; both can raise, \<open>strptime\<close> on text that does not match
    and \<open>strftime\<close> of Python 2 on a year before 1900;
  \<^item> \<open>symbol_from_file_path\<close> is the function of \<open>utils\<close>.
\<close>

record 'f pyenv =
  float_of_str :: "string \<Rightarrow> exc + 'f"
  fmt_2f :: "'f \<Rightarrow> string"
  fmt_i :: "'f \<Rightarrow> exc + string"
  localtime :: "int \<Rightarrow> exc + int"
  strptime :: "string \<Rightarrow> exc + datetime"
  strftime :: "datetime \<Rightarrow> exc + string"
  symbol_from_file_path :: "string \<Rightarrow> string"

text \<open>\<open>datetime.datetime.fromtimestamp(n)\<close> for an integer \<open>n\<close>.\<close>

definition fromtimestamp :: "'f pyenv \<Rightarrow> int \<Rightarrow> exc + datetime" where
  "fromtimestamp env n =
     and_then (localtime env n) (\<lambda>s. Inr \<lparr>dt_seconds = s, dt_microsecond = 0\<rparr>)"

text \<open>
  Modelled from the spec: the constructor of class \<open>Bar\<close> (module \<open>pytradelib.bar\<close>, not
  among the sources). The spec gives the invariant
  \<open>low \<le> {open, close, high}\<close>, \<open>high \<ge> {open, close, low}\<close>, \<open>volume \<ge> 0\<close>
  and says that construction fails when it is violated; \<open>row_to_bar\<close> catches that
  failure as an \<open>AssertionError\<close>.
\<close>

definition ohlc_ok :: "'f::ord \<Rightarrow> 'f \<Rightarrow> 'f \<Rightarrow> 'f \<Rightarrow> bool" where
  "ohlc_ok op h l c = (l \<le> op \<and> l \<le> c \<and> l \<le> h \<and> op \<le> h \<and> c \<le> h)"

definition bar_ok :: "'f::{ord,zero} bar \<Rightarrow> bool" where
  "bar_ok b = (ohlc_ok (get_open b) (get_high b) (get_low b) (get_close b) \<and> 0 \<le> get_volume b)"

definition Bar :: "datetime \<Rightarrow> 'f::{ord,zero} \<Rightarrow> 'f \<Rightarrow> 'f \<Rightarrow> 'f \<Rightarrow> 'f \<Rightarrow> 'f \<Rightarrow> exc + 'f bar" where
  "Bar dateTime op h l c v adj =
     (if ohlc_ok op h l c \<and> 0 \<le> v
      then Inr \<lparr>get_date_time = dateTime, get_open = op, get_high = h, get_low = l,
                get_close = c, get_volume = v, get_adj_close = adj\<rparr>
      else Inl AssertionError)"

subsection \<open>\<open>row_to_bar\<close> and \<open>bar_to_row\<close>\<close>

text \<open>
  \<open>row_to_bar\<close> returns a \<open>Bar\<close>, or the text \<open>str(e)\<close> of the assertion that failed
  in the constructor. The text itself is fixed by the absent class, so the model keeps
  only that it is a string and not a bar.
\<close>

datatype 'f decoded = RBar "'f bar" | RFailure

text \<open>
  Lines 35-38: the date column, as an epoch integer first and, on \<open>ValueError\<close> from
  either \<open>int\<close> or \<open>fromtimestamp\<close>, as a formatted date. Any other exception leaves
  the function.
\<close>

definition parse_date :: "'f pyenv \<Rightarrow> string \<Rightarrow> exc + datetime" where
  "parse_date env s =
     (case and_then (int_of_str s) (fromtimestamp env) of
        Inl e \<Rightarrow> (if e = ValueError then strptime env s else Inl e)
      | Inr d \<Rightarrow> Inr d)"

text \<open>\<open>float(row[i])\<close>: the index is read first, then the text converted.\<close>

definition float_col :: "'f pyenv \<Rightarrow> string list \<Rightarrow> nat \<Rightarrow> exc + 'f" where
  "float_col env row i = and_then (getitem row i) (float_of_str env)"

text \<open>Lines 34-43: the six columns in wire order, date, close, high, low, open, volume.\<close>

definition parse_row ::
  "'f pyenv \<Rightarrow> string \<Rightarrow> exc + (datetime \<times> 'f \<times> 'f \<times> 'f \<times> 'f \<times> 'f)" where
  "parse_row env row0 =
     (let row = split_sep CHR '','' row0 in
      and_then (and_then (getitem row 0) (parse_date env)) (\<lambda>date.
      and_then (float_col env row 1) (\<lambda>close.
      and_then (float_col env row 2) (\<lambda>high.
      and_then (float_col env row 3) (\<lambda>low.
      and_then (float_col env row 4) (\<lambda>opn.
      and_then (float_col env row 5) (\<lambda>volume.
      Inr (date, close, high, low, opn, volume))))))))"

definition row_to_bar :: "'f::{ord,zero} pyenv \<Rightarrow> string \<Rightarrow> exc + 'f decoded" where
  "row_to_bar env row0 =
     and_then (parse_row env row0) (\<lambda>(date, close, high, low, opn, volume).
       case Bar date opn high low close volume close of
         Inl e \<Rightarrow> (if e = AssertionError then Inr RFailure else Inl e)
       | Inr b \<Rightarrow> Inr (RBar b))"

text \<open>Lines 50-58: the row of a bar. Only \<open>'%i' % volume\<close> can raise.\<close>

definition bar_to_row :: "'f pyenv \<Rightarrow> 'f bar \<Rightarrow> exc + string" where
  "bar_to_row env b =
     and_then (fmt_i env (get_volume b)) (\<lambda>v.
       Inr (join '','' [
         show_int (timegm_timetuple (get_date_time b)),
         fmt_2f env (get_close b),
         fmt_2f env (get_high b),
         fmt_2f env (get_low b),
         fmt_2f env (get_open b),
         v]))"

subsection \<open>\<open>process_downloaded_data\<close>\<close>

text \<open>
  What the generator prints: the two messages of lines 77 and 98, with the symbol
  and, for the first, the text after \<open>message:\<close>, for the second, the exception.
\<close>

datatype log_line =
    ErrorDownloading string string
  | ErrorConverting string exc

text \<open>
  Lines 73-82, the scan of the header. The loop walks the rows in order; \<open>rest\<close> is
  what follows the current row, so \<open>data_rows[i+1]\<close> is its head and raises
  \<open>IndexError\<close> when the current row is the last one. The result is what was printed,
  and then either the exception or the flag \<open>error\<close> with the rows kept: those after the
  first row that starts with \<open>volume\<close>, or \<open>None\<close> when the loop ran to the end and
  \<open>data_rows\<close> was never cut.
\<close>

fun scan_header :: "string \<Rightarrow> string list \<Rightarrow> log_line list \<times> (exc + bool \<times> string list option)" where
  "scan_header symbol [] = ([], Inr (False, None))"
| "scan_header symbol (row # rest) =
     (if startswith ''error'' row then
        (case rest of
           [] \<Rightarrow> ([], Inl IndexError)
         | nxt # _ \<Rightarrow>
             (case scan_header symbol rest of
                (lg, Inl e) \<Rightarrow> (ErrorDownloading symbol (drop (length ''message:'') nxt) # lg, Inl e)
              | (lg, Inr (err, kept)) \<Rightarrow>
                  (ErrorDownloading symbol (drop (length ''message:'') nxt) # lg, Inr (True, kept))))
      else if startswith ''volume'' row then ([], Inr (False, Some rest))
      else scan_header symbol rest)"

text \<open>Lines 93-96: one row with its leading epoch seconds rewritten as a formatted date.\<close>

definition convert_row :: "'f pyenv \<Rightarrow> string \<Rightarrow> exc + string" where
  "convert_row env row =
     (let columns = split_sep CHR '','' row in
      and_then (getitem columns 0) (\<lambda>c0.
      and_then (int_of_str c0) (\<lambda>n.
      and_then (fromtimestamp env n) (\<lambda>dt.
      and_then (strftime env dt) (\<lambda>c0'.
      Inr (join '','' (columns[0 := c0'])))))))"

text \<open>Lines 92-96: the rows in order, stopping at the first exception.\<close>

fun convert_rows :: "'f pyenv \<Rightarrow> string list \<Rightarrow> exc + string list" where
  "convert_rows env [] = Inr []"
| "convert_rows env (row # rows) =
     and_then (convert_row env row) (\<lambda>r.
     and_then (convert_rows env rows) (\<lambda>rs. Inr (r # rs)))"

text \<open>
  A \<open>datetime.time\<close> as hour, minute, second, microsecond; \<open>time_less\<close> is its \<open><\<close>,
  which compares the four fields in that order.
\<close>

type_synonym pytime = "int \<times> int \<times> int \<times> int"

fun time_less :: "pytime \<Rightarrow> pytime \<Rightarrow> bool" where
  "time_less (h, m, s, u) (h', m', s', u') =
     (h < h' \<or> (h = h' \<and> (m < m' \<or> (m = m' \<and> (s < s' \<or> (s = s' \<and> u < u'))))))"

text \<open>Lines 102-105: the last row is popped inside the session, when there are at least two.\<close>

definition withhold_latest :: "pytime \<Rightarrow> string list \<Rightarrow> string list" where
  "withhold_latest now data_rows =
     (if length data_rows > 1 \<and> time_less (9, 30, 0, 0) now \<and> time_less now (16, 0, 0, 0)
      then butlast data_rows else data_rows)"

text \<open>
  One turn of the loop of line 69, for one \<open>(data, file_path)\<close> and the time \<open>now\<close> that
  \<open>datetime.now()\<close> would give: what is printed, and whether the turn raises, goes on to
  the next pair without a yield, or yields.
\<close>

datatype turn = Raises exc | Continues | Yields "string list \<times> string"

definition process_one :: "'f pyenv \<Rightarrow> pytime \<Rightarrow> string \<times> string \<Rightarrow> log_line list \<times> turn" where
  "process_one env now item =
     (let (data, file_path) = item;
          symbol = symbol_from_file_path env file_path;
          data_rows = split_sep CHR 0x0A (strip data)
      in case scan_header symbol data_rows of
           (lg, Inl e) \<Rightarrow> (lg, Raises e)
         | (lg, Inr (err, kept)) \<Rightarrow>
             if err then (lg, Continues)
             else (case convert_rows env (case kept of None \<Rightarrow> data_rows | Some rows \<Rightarrow> rows) of
                     Inl e \<Rightarrow> (lg @ [ErrorConverting symbol e], Continues)
                   | Inr rows \<Rightarrow> (lg, Yields (withhold_latest now rows, file_path))))"

text \<open>
  The generator run to its end on a list of pairs: everything it yields, everything it
  prints, and the exception that ended it, if one did. \<open>clock n\<close> is the time read in
  the turn of the \<open>n\<close>-th pair.
\<close>

fun process_from ::
  "'f pyenv \<Rightarrow> (nat \<Rightarrow> pytime) \<Rightarrow> nat \<Rightarrow> (string \<times> string) list
     \<Rightarrow> (string list \<times> string) list \<times> log_line list \<times> exc option" where
  "process_from env clock n [] = ([], [], None)"
| "process_from env clock n (item # items) =
     (case process_one env (clock n) item of
        (lg, Raises e) \<Rightarrow> ([], lg, Some e)
      | (lg, Continues) \<Rightarrow>
          (case process_from env clock (Suc n) items of (ys, lg', r) \<Rightarrow> (ys, lg @ lg', r))
      | (lg, Yields y) \<Rightarrow>
          (case process_from env clock (Suc n) items of (ys, lg', r) \<Rightarrow> (y # ys, lg @ lg', r)))"

definition process_downloaded_data ::
  "'f pyenv \<Rightarrow> (nat \<Rightarrow> pytime) \<Rightarrow> (string \<times> string) list
     \<Rightarrow> (string list \<times> string) list \<times> log_line list \<times> exc option" where
  "process_downloaded_data env clock data_file_paths = process_from env clock 0 data_file_paths"

subsection \<open>An environment to evaluate in\<close>

text \<open>
  The theorems below hold in every environment. To run the functions on concrete rows
  one environment is fixed here: a host whose local time is UTC, with
  \<open>DATE_FORMAT = '%Y-%m-%d %H:%M:%S'\<close>, floats read as exact decimal fractions, and the
  symbol of a file path taken to be the path. On plain decimal text such as \<open>1.50\<close>
  and on values with a short decimal expansion these agree with the interpreter; the
  exponent, \<open>inf\<close> and \<open>nan\<close> forms of \<open>float()\<close> are not read, and \<open>strptime\<close>
  reads only fully padded text.
\<close>

definition round_half_even :: "rat \<Rightarrow> int" where
  "round_half_even x =
     (let f = \<lfloor>x\<rfloor>; d = x - of_int f
      in if d < 1 / 2 then f else if 1 / 2 < d then f + 1 else if even f then f else f + 1)"

definition two_digits :: "int \<Rightarrow> string" where
  "two_digits n = [digit_char (n div 10 mod 10), digit_char (n mod 10)]"

definition dec_fmt_2f :: "rat \<Rightarrow> string" where
  "dec_fmt_2f x =
     (let n = round_half_even (\<bar>x\<bar> * 100)
      in (if x < 0 then ''-'' else []) @ show_nat (n div 100) @ ''.'' @ two_digits (n mod 100))"

definition dec_fmt_i :: "rat \<Rightarrow> exc + string" where
  "dec_fmt_i x = Inr (show_int (if x < 0 then - \<lfloor>- x\<rfloor> else \<lfloor>x\<rfloor>))"

definition dec_float_of_str :: "string \<Rightarrow> exc + rat" where
  "dec_float_of_str s =
     (let t = strip s;
          neg = (t \<noteq> [] \<and> hd t = CHR ''-'');
          u = (if t \<noteq> [] \<and> (hd t = CHR ''-'' \<or> hd t = CHR ''+'') then tl t else t);
          ip = takeWhile (\<lambda>c. c \<noteq> CHR ''.'') u;
          fp = drop (Suc (length ip)) u
      in if (ip \<noteq> [] \<or> fp \<noteq> []) \<and> list_all is_digit ip \<and> list_all is_digit fp
         then Inr ((if neg then - 1 else 1) *
                   (of_int (digits_val ip) + of_int (digits_val fp) / 10 ^ length fp))
         else Inl ValueError)"

text \<open>The calendar date of a day number counted from 1970-01-01, and back.\<close>

definition civil_from_days :: "int \<Rightarrow> int \<times> int \<times> int" where
  "civil_from_days z0 =
     (let z = z0 + 719468;
          era = z div 146097;
          doe = z mod 146097;
          yoe = (doe - doe div 1460 + doe div 36524 - doe div 146096) div 365;
          doy = doe - (365 * yoe + yoe div 4 - yoe div 100);
          mp = (5 * doy + 2) div 153;
          d = doy - (153 * mp + 2) div 5 + 1;
          m = (if mp < 10 then mp + 3 else mp - 9);
          y = yoe + era * 400 + (if m \<le> 2 then 1 else 0)
      in (y, m, d))"

definition days_from_civil :: "int \<Rightarrow> int \<Rightarrow> int \<Rightarrow> int" where
  "days_from_civil y0 m d =
     (let y = (if m \<le> 2 then y0 - 1 else y0);
          era = y div 400;
          yoe = y mod 400;
          doy = (153 * (if 2 < m then m - 3 else m + 9) + 2) div 5 + d - 1;
          doe = yoe * 365 + yoe div 4 - yoe div 100 + doy
      in era * 146097 + doe - 719468)"

definition pad :: "nat \<Rightarrow> int \<Rightarrow> string" where
  "pad w n = (let t = show_nat n in replicate (w - length t) CHR ''0'' @ t)"

definition utc_format :: "datetime \<Rightarrow> string" where
  "utc_format dt =
     (let t = dt_seconds dt; s = t mod 86400
      in case civil_from_days (t div 86400) of (y, m, d) \<Rightarrow>
           pad 4 y @ ''-'' @ pad 2 m @ ''-'' @ pad 2 d @ '' '' @
           pad 2 (s div 3600) @ '':'' @ pad 2 (s div 60 mod 60) @ '':'' @ pad 2 (s mod 60))"

definition utc_strptime :: "string \<Rightarrow> exc + datetime" where
  "utc_strptime s =
     (let num = (\<lambda>i n. digits_val (take n (drop i s)));
          t = days_from_civil (num 0 4) (num 5 2) (num 8 2) * 86400
              + num 11 2 * 3600 + num 14 2 * 60 + num 17 2
      in if length s = 19 \<and> 1 \<le> num 0 4 \<and> num 11 2 < 24 \<and> num 14 2 < 60 \<and> num 17 2 < 60
            \<and> utc_format \<lparr>dt_seconds = t, dt_microsecond = 0\<rparr> = s
         then Inr \<lparr>dt_seconds = t, dt_microsecond = 0\<rparr>
         else Inl ValueError)"

text \<open>\<open>strftime\<close> of Python 2 refuses a date before 1900-01-01.\<close>

definition utc_strftime :: "datetime \<Rightarrow> exc + string" where
  "utc_strftime dt =
     (if dt_seconds dt < days_from_civil 1900 1 1 * 86400 then Inl ValueError
      else Inr (utc_format dt))"

definition utc_localtime :: "int \<Rightarrow> exc + int" where
  "utc_localtime t =
     (if - 62135596800 \<le> t \<and> t \<le> 253402300799 then Inr t else Inl ValueError)"

definition utc_env :: "rat pyenv" where
  "utc_env = \<lparr>float_of_str = dec_float_of_str, fmt_2f = dec_fmt_2f, fmt_i = dec_fmt_i,
              localtime = utc_localtime, strptime = utc_strptime, strftime = utc_strftime,
              symbol_from_file_path = (\<lambda>p. p)\<rparr>"

text \<open>The same on a host whose local time is five hours behind UTC.\<close>

definition est_env :: "rat pyenv" where
  "est_env = utc_env\<lparr>localtime := (\<lambda>t. utc_localtime (t - 18000))\<rparr>"

section \<open>The store (pytradelab/db.py)\<close>

subsection \<open>Values and dictionaries\<close>

text \<open>
  The values a column can hold: \<open>None\<close>, an integer, a string or a float. A
  dictionary with string keys is an association list with distinct keys; the order of
  the list stands for the order in which Python 2 iterates the dictionary, which
  \<open>keys()\<close> and \<open>values()\<close> share.
\<close>

datatype pyval = PNone | PInt int | PStr string | PFloat rat

type_synonym pydict = "(string \<times> pyval) list"

text \<open>\<open>d.pop(k)\<close> with no default: \<open>KeyError\<close> when the key is missing.\<close>

definition dict_pop :: "string \<Rightarrow> (string \<times> 'v) list \<Rightarrow> exc + 'v \<times> (string \<times> 'v) list" where
  "dict_pop k d =
     (case map_of d k of
        None \<Rightarrow> Inl KeyError
      | Some v \<Rightarrow> Inr (v, filter (\<lambda>kv. fst kv \<noteq> k) d))"

text \<open>\<open>d[k] = v\<close>.\<close>

definition dict_set :: "string \<Rightarrow> 'v \<Rightarrow> (string \<times> 'v) list \<Rightarrow> (string \<times> 'v) list" where
  "dict_set k v d =
     (if map_of d k = None then d @ [(k, v)]
      else map (\<lambda>kv. if fst kv = k then (k, v) else kv) d)"

subsection \<open>The schema and the tables\<close>

text \<open>
  Lines 32-76: the four column lists, each column with its type and constraints as
  the \<open>OrderedDict\<close>s of \<open>__init__\<close> give them.
\<close>

datatype coltype = INTEGER | TEXT | REAL

datatype constr = PRIMARY_KEY | AUTOINCREMENT | UNIQUE | NOT_NULL | REFERENCES string string

type_synonym column = "string \<times> coltype \<times> constr list"

definition sector_columns :: "column list" where
  "sector_columns = [
     (''sector_id'', INTEGER, [PRIMARY_KEY, AUTOINCREMENT]),
     (''name'', TEXT, [UNIQUE, NOT_NULL])]"

definition industry_columns :: "column list" where
  "industry_columns = [
     (''industry_id'', INTEGER, [PRIMARY_KEY, AUTOINCREMENT]),
     (''name'', TEXT, [UNIQUE, NOT_NULL]),
     (''sector_id'', INTEGER, [REFERENCES ''sector'' ''sector_id''])]"

definition symbol_columns :: "column list" where
  "symbol_columns = [
     (''symbol_id'', INTEGER, [PRIMARY_KEY, AUTOINCREMENT]),
     (''symbol'', TEXT, [UNIQUE, NOT_NULL]),
     (''name'', TEXT, []),
     (''industry_id'', INTEGER, [REFERENCES ''industry'' ''industry_id'']),
     (''exchange'', TEXT, []),
     (''ipo_date'', TEXT, []),
     (''newest_date'', TEXT, [])]"

definition stats_columns :: "column list" where
  "stats_columns = [
     (''symbol_id'', INTEGER, [PRIMARY_KEY, REFERENCES ''symbol'' ''symbol_id'']),
     (''last_trade_datetime'', TEXT, []),
     (''last_trade_price'', REAL, []),
     (''last_trade_volume'', INTEGER, []),
     (''year_high'', REAL, []),
     (''year_low'', REAL, []),
     (''ma_50'', REAL, []),
     (''ma_200'', REAL, []),
     (''market_cap'', REAL, []),
     (''average_daily_volume'', REAL, []),
     (''dividend_pay_date'', TEXT, []),
     (''ex_dividend_date'', TEXT, []),
     (''dividend_share'', REAL, []),
     (''dividend_yield'', REAL, []),
     (''book_value'', REAL, []),
     (''ebitda'', REAL, []),
     (''earnings_per_share'', REAL, []),
     (''peg_ratio'', REAL, []),
     (''pe_ratio'', REAL, []),
     (''price_per_book'', REAL, []),
     (''price_per_sales'', REAL, []),
     (''short_ratio'', REAL, [])]"

text \<open>
  A table is its rows, each a list of values in column order and listed in the order a
  \<open>SELECT\<close> without \<open>ORDER BY\<close> visits them, together with the largest row id the table
  ever held, which SQLite keeps for an \<open>AUTOINCREMENT\<close> key. The database is the state
  seen through the one connection.
\<close>

record table =
  t_rows :: "pyval list list"
  t_seq :: int

record db =
  tbl_sector :: table
  tbl_industry :: table
  tbl_symbol :: table
  tbl_stats :: table

text \<open>Lines 88-92: the four tables as \<open>CREATE TABLE\<close> leaves them.\<close>

definition create_tables :: db where
  "create_tables =
     \<lparr>tbl_sector = \<lparr>t_rows = [], t_seq = 0\<rparr>, tbl_industry = \<lparr>t_rows = [], t_seq = 0\<rparr>,
      tbl_symbol = \<lparr>t_rows = [], t_seq = 0\<rparr>, tbl_stats = \<lparr>t_rows = [], t_seq = 0\<rparr>\<rparr>"

definition table_of :: "db \<Rightarrow> string \<Rightarrow> (column list \<times> table) option" where
  "table_of d n =
     (if n = ''sector'' then Some (sector_columns, tbl_sector d)
      else if n = ''industry'' then Some (industry_columns, tbl_industry d)
      else if n = ''symbol'' then Some (symbol_columns, tbl_symbol d)
      else if n = ''stats'' then Some (stats_columns, tbl_stats d)
      else None)"

definition set_table :: "db \<Rightarrow> string \<Rightarrow> table \<Rightarrow> db" where
  "set_table d n t =
     (if n = ''sector'' then d\<lparr>tbl_sector := t\<rparr>
      else if n = ''industry'' then d\<lparr>tbl_industry := t\<rparr>
      else if n = ''symbol'' then d\<lparr>tbl_symbol := t\<rparr>
      else if n = ''stats'' then d\<lparr>tbl_stats := t\<rparr>
      else d)"

subsection \<open>The two SQL statements the module sends\<close>

definition col_has :: "constr \<Rightarrow> column \<Rightarrow> bool" where
  "col_has k c = (k \<in> set (snd (snd c)))"

text \<open>The value of a column in a row; \<open>NULL\<close> where the row has none.\<close>

definition field :: "column list \<Rightarrow> pyval list \<Rightarrow> string \<Rightarrow> pyval" where
  "field cols row n = (case map_of (zip (map fst cols) row) n of None \<Rightarrow> PNone | Some v \<Rightarrow> v)"

definition key_column :: "column list \<Rightarrow> string" where
  "key_column cols = (case filter (col_has PRIMARY_KEY) cols of [] \<Rightarrow> [] | c # _ \<Rightarrow> fst c)"

definition rowids :: "column list \<Rightarrow> pyval list list \<Rightarrow> int list" where
  "rowids cols rows =
     concat (map (\<lambda>r. case field cols r (key_column cols) of PInt i \<Rightarrow> [i] | _ \<Rightarrow> []) rows)"

definition largest :: "int list \<Rightarrow> int" where
  "largest ids = (case ids of [] \<Rightarrow> 0 | i # r \<Rightarrow> foldr max r i)"

text \<open>
  Two rows collide when they agree, on a value that is not \<open>NULL\<close>, in the primary key
  or in a \<open>UNIQUE\<close> column.
\<close>

definition conflicts :: "column list \<Rightarrow> pyval list \<Rightarrow> pyval list \<Rightarrow> bool" where
  "conflicts cols row r =
     list_ex (\<lambda>c. (col_has PRIMARY_KEY c \<or> col_has UNIQUE c)
                   \<and> field cols row (fst c) \<noteq> PNone
                   \<and> field cols r (fst c) = field cols row (fst c)) cols"

text \<open>
  \<open>INSERT OR REPLACE INTO t (names) VALUES (?, ...)\<close> for one tuple of parameters, as
  SQLite documents it. Columns not named are \<open>NULL\<close>. An \<open>INTEGER PRIMARY KEY\<close> that is
  \<open>NULL\<close> gets a fresh row id: with \<open>AUTOINCREMENT\<close> one more than the largest the
  table ever held, otherwise one more than the largest present. A \<open>NULL\<close> in a
  \<open>NOT NULL\<close> column aborts. Every row that collides with the new one is deleted, and
  the new row is added. Foreign keys are not enforced (the module never turns them
  on), and the conversion of values to the column's type is left out.
\<close>

definition insert_or_replace ::
  "column list \<Rightarrow> table \<Rightarrow> string list \<Rightarrow> pyval list \<Rightarrow> exc + table" where
  "insert_or_replace cols t names params =
     (let given = (\<lambda>n. case map_of (zip names params) n of None \<Rightarrow> PNone | Some v \<Rightarrow> v);
          auto = list_ex (\<lambda>c. col_has PRIMARY_KEY c \<and> col_has AUTOINCREMENT c) cols;
          ids = rowids cols (t_rows t);
          fresh = (if auto then max (t_seq t) (largest ids) + 1
                   else if ids = [] then 1 else largest ids + 1);
          store = (\<lambda>i.
            let row = map (\<lambda>c. if col_has PRIMARY_KEY c then PInt i else given (fst c)) cols
            in if list_ex (\<lambda>c. col_has NOT_NULL c \<and> field cols row (fst c) = PNone) cols
               then Inl IntegrityError
               else Inr \<lparr>t_rows = filter (\<lambda>r. \<not> conflicts cols row r) (t_rows t) @ [row],
                         t_seq = (if auto then max (t_seq t) i else t_seq t)\<rparr>)
      in case given (key_column cols) of
           PNone \<Rightarrow> store fresh
         | PInt i \<Rightarrow> store i
         | PStr s \<Rightarrow> Inl IntegrityError
         | PFloat x \<Rightarrow> Inl IntegrityError)"

text \<open>
  \<open>cursor.executemany(sql, params)\<close> for that statement. Preparing it fails when no
  column is named or a name is not a column of the table; a tuple whose length is not
  the number of placeholders is refused; the first failure ends the run, with the rows
  written before it still in place on the connection.
\<close>

fun run_rows :: "column list \<Rightarrow> string list \<Rightarrow> table \<Rightarrow> pyval list list \<Rightarrow> exc option \<times> table" where
  "run_rows cols names t [] = (None, t)"
| "run_rows cols names t (p # ps) =
     (if length p \<noteq> length names then (Some ProgrammingError, t)
      else (case insert_or_replace cols t names p of
              Inl e \<Rightarrow> (Some e, t)
            | Inr t' \<Rightarrow> run_rows cols names t' ps))"

definition execute_many ::
  "column list \<Rightarrow> table \<Rightarrow> string list \<Rightarrow> pyval list list \<Rightarrow> exc option \<times> table" where
  "execute_many cols t names params =
     (if names = [] \<or> list_ex (\<lambda>n. n \<notin> set (map fst cols)) names
      then (Some OperationalError, t)
      else run_rows cols names t params)"

text \<open>
  Lines 101-109, \<open>_select_rows\<close>, for the queries the module sends:
  \<open>SELECT out FROM t\<close> with \<open>w = None\<close>, and \<open>SELECT out FROM t WHERE c = ?\<close> with
  \<open>w = Some (c, v)\<close>. Each row of the result is a tuple of one value.
\<close>

definition select_rows ::
  "db \<Rightarrow> string \<Rightarrow> string \<Rightarrow> (string \<times> pyval) option \<Rightarrow> exc + pyval list list" where
  "select_rows d table_name out w =
     (case table_of d table_name of
        None \<Rightarrow> Inl OperationalError
      | Some (cols, t) \<Rightarrow>
          Inr (map (\<lambda>r. [field cols r out])
                 (filter (\<lambda>r. case w of None \<Rightarrow> True
                                | Some (c, v) \<Rightarrow> v \<noteq> PNone \<and> field cols r c = v)
                    (t_rows t))))"

text \<open>Lines 98-99, \<open>_select_row\<close>: the first row of the result.\<close>

definition select_row ::
  "db \<Rightarrow> string \<Rightarrow> string \<Rightarrow> (string \<times> pyval) option \<Rightarrow> exc + pyval list" where
  "select_row d table_name out w =
     and_then (select_rows d table_name out w) (\<lambda>rows. getitem rows 0)"

text \<open>Lines 117-127: the three lookups of an id by a name.\<close>

definition get_symbol_id :: "db \<Rightarrow> string \<Rightarrow> exc + pyval" where
  "get_symbol_id d symbol =
     and_then (select_row d ''symbol'' ''symbol_id'' (Some (''symbol'', PStr symbol)))
       (\<lambda>row. getitem row 0)"

definition get_sector_id :: "db \<Rightarrow> string \<Rightarrow> exc + pyval" where
  "get_sector_id d sector =
     and_then (select_row d ''sector'' ''sector_id'' (Some (''name'', PStr sector)))
       (\<lambda>row. getitem row 0)"

definition get_industry_id :: "db \<Rightarrow> string \<Rightarrow> exc + pyval" where
  "get_industry_id d industry =
     and_then (select_row d ''industry'' ''industry_id'' (Some (''name'', PStr industry)))
       (\<lambda>row. getitem row 0)"

subsection \<open>The writes\<close>

text \<open>
  An operation that writes returns the exception that left it, if any, and the
  database as it then stands.
\<close>

text \<open>Lines 179-182: \<open>d.pop(key)\<close> for every key to remove, in every dictionary.\<close>

fun pop_keys :: "string list \<Rightarrow> pydict \<Rightarrow> exc + pydict" where
  "pop_keys [] d = Inr d"
| "pop_keys (k # ks) d = and_then (dict_pop k d) (\<lambda>(v, d'). pop_keys ks d')"

fun pop_all :: "string list \<Rightarrow> pydict list \<Rightarrow> exc + pydict list" where
  "pop_all ks [] = Inr []"
| "pop_all ks (d # ds) =
     and_then (pop_keys ks d) (\<lambda>d'. and_then (pop_all ks ds) (\<lambda>ds'. Inr (d' # ds')))"

text \<open>
  Lines 178-189, \<open>__insert_or_update\<close>. \<open>remove_keys\<close> is \<open>[]\<close> where the caller passes
  none. The column list is the key list of the first dictionary, read by
  \<open>list_of_dicts[0]\<close>; each dictionary then gives one tuple of parameters, its values.
\<close>

definition insert_or_update :: "db \<Rightarrow> string \<Rightarrow> pydict list \<Rightarrow> string list \<Rightarrow> exc option \<times> db" where
  "insert_or_update d table_name list_of_dicts remove_keys =
     (case (if remove_keys \<noteq> [] then pop_all remove_keys list_of_dicts else Inr list_of_dicts) of
        Inl e \<Rightarrow> (Some e, d)
      | Inr dicts \<Rightarrow>
          (case getitem dicts 0 of
             Inl e \<Rightarrow> (Some e, d)
           | Inr first \<Rightarrow>
               (case table_of d table_name of
                  None \<Rightarrow> (Some OperationalError, d)
                | Some (cols, t) \<Rightarrow>
                    (case execute_many cols t (map fst first) (map (map snd) dicts) of
                       (r, t') \<Rightarrow> (r, set_table d table_name t')))))"

text \<open>Lines 129-137: a sector name, or a list of them.\<close>

datatype sectors_arg = OneSector string | SectorList "string list"

definition insert_or_update_sectors :: "db \<Rightarrow> sectors_arg \<Rightarrow> exc option \<times> db" where
  "insert_or_update_sectors d arg =
     (let sectors = (case arg of OneSector s \<Rightarrow> [s] | SectorList l \<Rightarrow> l)
      in insert_or_update d ''sector'' (map (\<lambda>s. [(''name'', PStr s)]) sectors) [])"

text \<open>
  Lines 139-150. The argument is a dictionary from industry names to sector names, or
  a sequence of pairs that \<open>dict()\<close> turns into one. The comprehension iterates the
  dictionary itself, so each of its items is a key, and \<open>for i, s in\<close> unpacks that key:
  a string of two characters gives its two characters, any other string is a
  \<open>ValueError\<close>.
\<close>

datatype industries_arg =
    IndustryDict "(string \<times> string) list"
  | IndustryPairs "(string \<times> string) list"

definition dict_of_pairs :: "(string \<times> 'v) list \<Rightarrow> (string \<times> 'v) list" where
  "dict_of_pairs ps = foldl (\<lambda>d kv. dict_set (fst kv) (snd kv) d) [] ps"

definition unpack2 :: "string \<Rightarrow> exc + string \<times> string" where
  "unpack2 k = (case k of [a, b] \<Rightarrow> Inr ([a], [b]) | _ \<Rightarrow> Inl ValueError)"

fun industry_rows :: "db \<Rightarrow> string list \<Rightarrow> exc + pydict list" where
  "industry_rows d [] = Inr []"
| "industry_rows d (k # ks) =
     and_then (unpack2 k) (\<lambda>(i, s).
     and_then (get_sector_id d s) (\<lambda>sector_id.
     and_then (industry_rows d ks) (\<lambda>rows.
     Inr ([(''name'', PStr i), (''sector_id'', sector_id)] # rows))))"

definition insert_or_update_industries :: "db \<Rightarrow> industries_arg \<Rightarrow> exc option \<times> db" where
  "insert_or_update_industries d arg =
     (let industry_sectors = (case arg of IndustryDict m \<Rightarrow> m | IndustryPairs ps \<Rightarrow> dict_of_pairs ps)
      in case industry_rows d (map fst industry_sectors) of
           Inl e \<Rightarrow> (Some e, d)
         | Inr rows \<Rightarrow> insert_or_update d ''industry'' rows [])"

text \<open>
  Lines 152-164. The callers pass a dictionary keyed by symbol
  (\<open>insert_or_update_instruments\<close>) or a list of dictionaries
  (\<open>insert_or_update_stats\<close>). \<open>dict()\<close> of a list of dictionaries takes each element as
  a pair, which it is only when it has exactly two keys: the first becomes the key and
  the second the value; any other size is a \<open>ValueError\<close>. Either way
  \<open>symbol_dicts\<close> is then a dictionary whose keys are strings, and line 160 looks the
  integer \<open>0\<close> up in it: a \<open>KeyError\<close>. Lines 161-164 are never reached.
\<close>

datatype symbols_arg =
    SymbolDict "(string \<times> pydict) list"
  | SymbolList "pydict list"

fun pairs_of_dicts :: "pydict list \<Rightarrow> exc + (string \<times> string) list" where
  "pairs_of_dicts [] = Inr []"
| "pairs_of_dicts (e # es) =
     (case map fst e of
        [k, v] \<Rightarrow> and_then (pairs_of_dicts es) (\<lambda>ps. Inr ((k, v) # ps))
      | _ \<Rightarrow> Inl ValueError)"

definition dict_of_dicts :: "pydict list \<Rightarrow> exc + (string \<times> string) list" where
  "dict_of_dicts l = and_then (pairs_of_dicts l) (\<lambda>ps. Inr (dict_of_pairs ps))"

definition insert_or_update_symbols :: "db \<Rightarrow> symbols_arg \<Rightarrow> exc option \<times> db" where
  "insert_or_update_symbols d arg =
     (case (case arg of SymbolDict m \<Rightarrow> Inr (map fst m)
                      | SymbolList l \<Rightarrow> and_then (dict_of_dicts l) (\<lambda>m. Inr (map fst m))) of
        Inl e \<Rightarrow> (Some e, d)
      | Inr keys \<Rightarrow> (Some KeyError, d))"

text \<open>
  Lines 169-174: the keys of one statistics record that belong to the symbol table
  move into a new dictionary; \<open>d['symbol']\<close> is a \<open>KeyError\<close> when the record has
  none. The result is the new dictionary and what is left of the record.
\<close>

fun move_keys :: "string list \<Rightarrow> pydict \<Rightarrow> pydict \<Rightarrow> pydict \<times> pydict" where
  "move_keys [] new_d d = (new_d, d)"
| "move_keys (key # ks) new_d d =
     (case map_of d key of
        None \<Rightarrow> move_keys ks new_d d
      | Some v \<Rightarrow> move_keys ks (dict_set key v new_d) (filter (\<lambda>kv. fst kv \<noteq> key) d))"

definition split_record :: "pydict \<Rightarrow> exc + pydict \<times> pydict" where
  "split_record d =
     (case map_of d ''symbol'' of
        None \<Rightarrow> Inl KeyError
      | Some s \<Rightarrow> Inr (move_keys [''name'', ''industry'', ''exchange''] [(''symbol'', s)] d))"

fun split_records :: "pydict list \<Rightarrow> exc + pydict list \<times> pydict list" where
  "split_records [] = Inr ([], [])"
| "split_records (d # ds) =
     and_then (split_record d) (\<lambda>(new_d, d').
     and_then (split_records ds) (\<lambda>(symbol_dicts, stats). Inr (new_d # symbol_dicts, d' # stats)))"

text \<open>Lines 166-176.\<close>

definition insert_or_update_stats :: "db \<Rightarrow> pydict list \<Rightarrow> exc option \<times> db" where
  "insert_or_update_stats d stats =
     (case split_records stats of
        Inl e \<Rightarrow> (Some e, d)
      | Inr (symbol_dicts, stats') \<Rightarrow>
          (case insert_or_update_symbols d (SymbolList symbol_dicts) of
             (Some e, d') \<Rightarrow> (Some e, d')
           | (None, d') \<Rightarrow>
               insert_or_update d' ''stats'' stats' [''sector'', ''ipo_date'', ''newest_date'']))"

subsection \<open>The reads\<close>

text \<open>Lines 230-234: both go through \<open>_select_row\<close>.\<close>

definition get_sectors :: "db \<Rightarrow> exc + pyval list" where
  "get_sectors d = select_row d ''sector'' ''name'' None"

definition get_industries :: "db \<Rightarrow> exc + pyval list" where
  "get_industries d = select_row d ''industry'' ''name'' None"

section \<open>Properties of the store\<close>

subsection \<open>The upserts of symbols and statistics\<close>

text \<open>
  Whatever it is given, \<open>insert_or_update_symbols\<close> raises and writes nothing, and so
  does \<open>insert_or_update_stats\<close>, which calls it before its own write.
\<close>

lemma insert_or_update_symbols_raises:
  "\<exists>e. insert_or_update_symbols d arg = (Some e, d)"
  by (auto simp: insert_or_update_symbols_def split: sum.splits symbols_arg.splits)

lemma insert_or_update_stats_raises:
  "\<exists>e. insert_or_update_stats d stats = (Some e, d)"
proof (cases "split_records stats")
  case (Inl e)
  then show ?thesis by (simp add: insert_or_update_stats_def)
next
  case (Inr p)
  obtain symbol_dicts stats' where p: "p = (symbol_dicts, stats')" by (cases p)
  obtain e where "insert_or_update_symbols d (SymbolList symbol_dicts) = (Some e, d)"
    using insert_or_update_symbols_raises by blast
  with Inr p show ?thesis by (simp add: insert_or_update_stats_def)
qed

text \<open>
  Claim C2. \<open>upsertStats\<close> of the record
  \<open>{symbol: "ABC", name: "Abc Inc", pe_ratio: 10.0}\<close> should leave a Symbol row for
  \<open>ABC\<close> and a Stats row with \<open>pe_ratio = 10.0\<close>. On the code the call raises
  \<open>KeyError\<close> from \<open>symbol_dicts[0]\<close> and the database is what it was, whatever it was:
  neither row is written.
\<close>

theorem stats_record_raises:
  "insert_or_update_stats d
     [[(''symbol'', PStr ''ABC''), (''name'', PStr ''Abc Inc''), (''pe_ratio'', PFloat 10)]]
   = (Some KeyError, d)"
  by (simp add: insert_or_update_stats_def split_record_def insert_or_update_symbols_def
      dict_of_dicts_def dict_of_pairs_def dict_set_def and_then_def)

subsection \<open>Empty batches\<close>

text \<open>
  Claim C9. None of the four upserts accepts an empty batch as a no-op: each raises an
  error of indexing, and the database is unchanged. For sectors and industries it is the
  \<open>IndexError\<close> of \<open>list_of_dicts[0]\<close> in \<open>__insert_or_update\<close>; for symbols and
  statistics it is the \<open>KeyError\<close> of \<open>symbol_dicts[0]\<close>, the batch having been made a
  dictionary first.
\<close>

theorem empty_batch_raises:
  "insert_or_update_sectors d (SectorList []) = (Some IndexError, d)
   \<and> insert_or_update_industries d (IndustryPairs []) = (Some IndexError, d)
   \<and> insert_or_update_industries d (IndustryDict []) = (Some IndexError, d)
   \<and> insert_or_update_symbols d (SymbolList []) = (Some KeyError, d)
   \<and> insert_or_update_symbols d (SymbolDict []) = (Some KeyError, d)
   \<and> insert_or_update_stats d [] = (Some KeyError, d)"
  by (simp add: insert_or_update_sectors_def insert_or_update_industries_def
      insert_or_update_symbols_def insert_or_update_stats_def insert_or_update_def
      getitem_def dict_of_pairs_def dict_of_dicts_def and_then_def)

subsection \<open>Reading the names\<close>

text \<open>
  \<open>get_sectors\<close> and \<open>get_industries\<close> give the name of the first row only, as a tuple
  of one value, and raise \<open>IndexError\<close> on an empty table.
\<close>

lemma get_sectors_eq:
  "get_sectors d =
     (case t_rows (tbl_sector d) of
        [] \<Rightarrow> Inl IndexError
      | r # _ \<Rightarrow> Inr [field sector_columns r ''name''])"
  by (simp add: get_sectors_def select_row_def select_rows_def table_of_def and_then_def
      getitem_def split: list.splits)

lemma get_industries_eq:
  "get_industries d =
     (case t_rows (tbl_industry d) of
        [] \<Rightarrow> Inl IndexError
      | r # _ \<Rightarrow> Inr [field industry_columns r ''name''])"
  by (simp add: get_industries_def select_row_def select_rows_def table_of_def and_then_def
      getitem_def split: list.splits)

text \<open>
  Claim C3. \<open>getSectors\<close> should return the name of every row of the sector table.
  After the sectors \<open>Energy\<close> and \<open>Technology\<close> are stored in a new database the table
  has two rows, and \<open>get_sectors\<close> returns the tuple \<open>('Energy',)\<close> alone.
\<close>

theorem get_sectors_first_row:
  "get_sectors (snd (insert_or_update_sectors create_tables (SectorList [''Energy'', ''Technology''])))
     = Inr [PStr ''Energy'']"
  by code_simp

subsection \<open>Industries\<close>

text \<open>
  Claim C6. With the sector \<open>Technology\<close> stored (its id is found),
  \<open>upsertIndustries([("Software", "Technology")])\<close> should succeed. On the code it
  raises \<open>ValueError\<close>: the loop unpacks the key \<open>'Software'\<close> into \<open>i, s\<close>. No industry
  row is written.
\<close>

theorem industries_unpack_key:
  "get_sector_id (snd (insert_or_update_sectors create_tables (SectorList [''Technology''])))
      ''Technology'' = Inr (PInt 1)
   \<and> insert_or_update_industries
       (snd (insert_or_update_sectors create_tables (SectorList [''Technology''])))
       (IndustryPairs [(''Software'', ''Technology'')])
     = (Some ValueError, snd (insert_or_update_sectors create_tables (SectorList [''Technology''])))"
  by code_simp

subsection \<open>Sectors\<close>

text \<open>
  One \<open>INSERT OR REPLACE\<close> of a sector name deletes the rows of that name and adds a
  row with a row id larger than any the table has held; no present row has that id.
\<close>

lemma field_sector [simp]:
  "field sector_columns [a, b] ''sector_id'' = a"
  "field sector_columns [a, b] ''name'' = b"
  by (simp_all add: field_def sector_columns_def)

lemma key_column_sector [simp]: "key_column sector_columns = ''sector_id''"
  by (simp add: key_column_def sector_columns_def col_has_def)

lemma largest_ge: "i \<in> set ids \<Longrightarrow> i \<le> largest ids"
proof -
  have fold_ge: "a \<le> foldr max r a \<and> (\<forall>i \<in> set r. i \<le> foldr max r a)" for r and a :: int
    by (induction r) (auto simp: max_def)
  assume "i \<in> set ids"
  then show ?thesis
    using fold_ge by (cases ids) (auto simp: largest_def)
qed

lemma rowid_le_largest:
  "r \<in> set rows \<Longrightarrow> field cols r (key_column cols) = PInt j \<Longrightarrow> j \<le> largest (rowids cols rows)"
  by (rule largest_ge) (force simp: rowids_def)

lemma conflicts_sector:
  "conflicts sector_columns [PInt i, PStr s] r =
     (field sector_columns r ''sector_id'' = PInt i \<or> field sector_columns r ''name'' = PStr s)"
  by (simp add: conflicts_def sector_columns_def col_has_def field_def)

lemma insert_sector:
  "insert_or_replace sector_columns t [''name''] [PStr s] =
     Inr \<lparr>t_rows = filter (\<lambda>r. field sector_columns r ''name'' \<noteq> PStr s) (t_rows t)
                     @ [[PInt (max (t_seq t) (largest (rowids sector_columns (t_rows t))) + 1), PStr s]],
          t_seq = max (t_seq t) (largest (rowids sector_columns (t_rows t))) + 1\<rparr>"
proof -
  let ?i = "max (t_seq t) (largest (rowids sector_columns (t_rows t))) + 1"
  have no_clash: "field sector_columns r ''sector_id'' \<noteq> PInt ?i" if "r \<in> set (t_rows t)" for r
  proof
    assume "field sector_columns r ''sector_id'' = PInt ?i"
    with that rowid_le_largest [of r "t_rows t" sector_columns ?i]
    show False by simp
  qed
  have keep: "filter (\<lambda>r. \<not> conflicts sector_columns [PInt ?i, PStr s] r) (t_rows t)
      = filter (\<lambda>r. field sector_columns r ''name'' \<noteq> PStr s) (t_rows t)"
    by (rule filter_cong) (auto simp: conflicts_sector no_clash)
  have "insert_or_replace sector_columns t [''name''] [PStr s] =
     Inr \<lparr>t_rows = filter (\<lambda>r. \<not> conflicts sector_columns [PInt ?i, PStr s] r) (t_rows t)
                     @ [[PInt ?i, PStr s]],
          t_seq = ?i\<rparr>"
    by (simp add: insert_or_replace_def Let_def sector_columns_def col_has_def field_def key_column_def)
  with keep show ?thesis by simp
qed


lemma run_rows_sector:
  "\<exists>t'. run_rows sector_columns [''name''] t (map (\<lambda>s. [PStr s]) ss) = (None, t')
        \<and> map (\<lambda>r. field sector_columns r ''name'') (t_rows t')
            = foldl (\<lambda>N s. filter (\<lambda>v. v \<noteq> PStr s) N @ [PStr s])
                (map (\<lambda>r. field sector_columns r ''name'') (t_rows t)) ss"
proof (induction ss arbitrary: t)
  case Nil
  show ?case by simp
next
  case (Cons s ss)
  let ?t1 = "\<lparr>t_rows = filter (\<lambda>r. field sector_columns r ''name'' \<noteq> PStr s) (t_rows t)
                     @ [[PInt (max (t_seq t) (largest (rowids sector_columns (t_rows t))) + 1), PStr s]],
          t_seq = max (t_seq t) (largest (rowids sector_columns (t_rows t))) + 1\<rparr>"
  have names1: "map (\<lambda>r. field sector_columns r ''name'') (t_rows ?t1)
      = filter (\<lambda>v. v \<noteq> PStr s) (map (\<lambda>r. field sector_columns r ''name'') (t_rows t)) @ [PStr s]"
    by (simp add: filter_map comp_def)
  from Cons.IH [of ?t1] obtain t' where
    run: "run_rows sector_columns [''name''] ?t1 (map (\<lambda>s. [PStr s]) ss) = (None, t')" and
    nm: "map (\<lambda>r. field sector_columns r ''name'') (t_rows t')
            = foldl (\<lambda>N s. filter (\<lambda>v. v \<noteq> PStr s) N @ [PStr s])
                (map (\<lambda>r. field sector_columns r ''name'') (t_rows ?t1)) ss"
    by blast
  have "run_rows sector_columns [''name''] t (map (\<lambda>s. [PStr s]) (s # ss)) = (None, t')"
    using run by (simp add: insert_sector)
  moreover have "map (\<lambda>r. field sector_columns r ''name'') (t_rows t')
            = foldl (\<lambda>N s. filter (\<lambda>v. v \<noteq> PStr s) N @ [PStr s])
                (map (\<lambda>r. field sector_columns r ''name'') (t_rows t)) (s # ss)"
    using nm names1 by simp
  ultimately show ?case by blast
qed

lemma upsert_names_eq:
  "foldl (\<lambda>N s. filter (\<lambda>v. v \<noteq> PStr s) N @ [PStr s]) N ss
     = filter (\<lambda>v. v \<notin> PStr ` set ss) N @ map PStr (remdups ss)"
proof (induction ss arbitrary: N)
  case Nil
  show ?case by simp
next
  case (Cons s ss)
  have "filter (\<lambda>v. v \<notin> PStr ` set ss) (filter (\<lambda>v. v \<noteq> PStr s) N)
      = filter (\<lambda>v. v \<notin> PStr ` set (s # ss)) N"
    by (induction N) auto
  with Cons.IH [of "filter (\<lambda>v. v \<noteq> PStr s) N @ [PStr s]"] show ?case
    by auto
qed

lemma upsert_names_twice:
  "foldl (\<lambda>N s. filter (\<lambda>v. v \<noteq> PStr s) N @ [PStr s])
     (foldl (\<lambda>N s. filter (\<lambda>v. v \<noteq> PStr s) N @ [PStr s]) N ss) ss
   = foldl (\<lambda>N s. filter (\<lambda>v. v \<noteq> PStr s) N @ [PStr s]) N ss"
proof -
  have "filter (\<lambda>v. v \<notin> PStr ` set ss) (map PStr (remdups ss)) = []"
    by (induction ss) auto
  then show ?thesis by (simp add: upsert_names_eq)
qed

lemma count_list_distinct: "distinct xs \<Longrightarrow> x \<in> set xs \<Longrightarrow> count_list xs x = 1"
  by (induction xs) auto

lemma upsert_names_count:
  assumes "n \<in> set ss"
  shows "count_list (foldl (\<lambda>N s. filter (\<lambda>v. v \<noteq> PStr s) N @ [PStr s]) N ss) (PStr n) = 1"
proof -
  have "count_list (filter (\<lambda>v. v \<notin> PStr ` set ss) N) (PStr n) = 0"
    using assms by (induction N) auto
  moreover have "count_list (map PStr (remdups ss)) (PStr n) = 1"
    using assms by (intro count_list_distinct) (auto simp: distinct_map inj_on_def)
  ultimately show ?thesis by (simp add: upsert_names_eq)
qed

lemma count_list_singletons: "count_list (map (\<lambda>v. [v]) xs) [x] = count_list xs x"
  by (induction xs) auto

lemma select_sector_names:
  "select_rows d ''sector'' ''name'' None
     = Inr (map (\<lambda>v. [v]) (map (\<lambda>r. field sector_columns r ''name'') (t_rows (tbl_sector d))))"
  by (simp add: select_rows_def table_of_def comp_def)

lemma insert_or_update_sectors_list:
  "ss \<noteq> [] \<Longrightarrow>
   \<exists>t'. insert_or_update_sectors d (SectorList ss) = (None, d\<lparr>tbl_sector := t'\<rparr>)
        \<and> map (\<lambda>r. field sector_columns r ''name'') (t_rows t')
            = foldl (\<lambda>N s. filter (\<lambda>v. v \<noteq> PStr s) N @ [PStr s])
                (map (\<lambda>r. field sector_columns r ''name'') (t_rows (tbl_sector d))) ss"
proof -
  assume ne: "ss \<noteq> []"
  from run_rows_sector [of "tbl_sector d" ss] obtain t' where
    run: "run_rows sector_columns [''name''] (tbl_sector d) (map (\<lambda>s. [PStr s]) ss) = (None, t')" and
    nm: "map (\<lambda>r. field sector_columns r ''name'') (t_rows t')
            = foldl (\<lambda>N s. filter (\<lambda>v. v \<noteq> PStr s) N @ [PStr s])
                (map (\<lambda>r. field sector_columns r ''name'') (t_rows (tbl_sector d))) ss"
    by blast
  have cols: "list_ex (\<lambda>n. n \<notin> set (map fst sector_columns)) [''name''] = False"
    by (simp add: sector_columns_def)
  have "insert_or_update_sectors d (SectorList ss) = (None, d\<lparr>tbl_sector := t'\<rparr>)"
    using ne run cols
    by (cases ss) (simp_all add: insert_or_update_sectors_def insert_or_update_def getitem_def
        table_of_def set_table_def execute_many_def comp_def)
  with nm show ?thesis by blast
qed

text \<open>
  Claim C5, as amended. Storing the same list of sector names a second time leaves
  the name column of the sector table, as \<open>SELECT name FROM sector\<close> lists it, what
  it was after the first time, and each name of the list is then the name of exactly
  one row. (For the empty list both calls raise and change nothing.)
\<close>

theorem upsert_sectors_names_idempotent:
  "select_rows (snd (insert_or_update_sectors (snd (insert_or_update_sectors d (SectorList names)))
                  (SectorList names))) ''sector'' ''name'' None
     = select_rows (snd (insert_or_update_sectors d (SectorList names))) ''sector'' ''name'' None
   \<and> (\<forall>n \<in> set names. \<exists>rows.
         select_rows (snd (insert_or_update_sectors (snd (insert_or_update_sectors d (SectorList names)))
                  (SectorList names))) ''sector'' ''name'' None = Inr rows
         \<and> count_list rows [PStr n] = 1)"
proof (cases "names = []")
  case True
  then show ?thesis
    by (simp add: insert_or_update_sectors_def insert_or_update_def getitem_def)
next
  case False
  let ?nm = "\<lambda>t. map (\<lambda>r. field sector_columns r ''name'') (t_rows t)"
  let ?step = "\<lambda>N s. filter (\<lambda>v. v \<noteq> PStr s) N @ [PStr s]"
  from insert_or_update_sectors_list [OF False, of d] obtain t1 where
    once: "insert_or_update_sectors d (SectorList names) = (None, d\<lparr>tbl_sector := t1\<rparr>)" and
    nm1: "?nm t1 = foldl ?step (?nm (tbl_sector d)) names"
    by blast
  from insert_or_update_sectors_list [OF False, of "d\<lparr>tbl_sector := t1\<rparr>"] obtain t2 where
    twice: "insert_or_update_sectors (d\<lparr>tbl_sector := t1\<rparr>) (SectorList names)
              = (None, d\<lparr>tbl_sector := t2\<rparr>)" and
    nm2: "?nm t2 = foldl ?step (?nm t1) names"
    by auto
  have same: "?nm t2 = ?nm t1"
    using nm1 nm2 upsert_names_twice [of "?nm (tbl_sector d)" names] by simp
  have one: "count_list (map (\<lambda>v. [v]) (?nm t2)) [PStr n] = 1" if "n \<in> set names" for n
    using that nm2 upsert_names_count [of n names "?nm t1"] by (simp add: count_list_singletons)
  show ?thesis
    using once twice same one by (simp add: select_sector_names)
qed

theorem upsert_sectors_names_idempotent_witness:
  "select_rows (snd (insert_or_update_sectors
                  (snd (insert_or_update_sectors create_tables (SectorList [''Technology''])))
                  (SectorList [''Technology'']))) ''sector'' ''name'' None
     = select_rows (snd (insert_or_update_sectors create_tables (SectorList [''Technology''])))
         ''sector'' ''name'' None
   \<and> ''Technology'' \<in> set [''Technology'']
   \<and> (\<exists>rows.
         select_rows (snd (insert_or_update_sectors
                  (snd (insert_or_update_sectors create_tables (SectorList [''Technology''])))
                  (SectorList [''Technology'']))) ''sector'' ''name'' None = Inr rows
         \<and> count_list rows [PStr ''Technology''] = 1)"
proof -
  note both = upsert_sectors_names_idempotent [of create_tables "[''Technology'']"]
  from both have same: "select_rows (snd (insert_or_update_sectors
                  (snd (insert_or_update_sectors create_tables (SectorList [''Technology''])))
                  (SectorList [''Technology'']))) ''sector'' ''name'' None
     = select_rows (snd (insert_or_update_sectors create_tables (SectorList [''Technology''])))
         ''sector'' ''name'' None"
    by (rule conjunct1)
  have mem: "''Technology'' \<in> set [''Technology'']"
    by simp
  from both [THEN conjunct2] mem have one: "\<exists>rows.
         select_rows (snd (insert_or_update_sectors
                  (snd (insert_or_update_sectors create_tables (SectorList [''Technology''])))
                  (SectorList [''Technology'']))) ''sector'' ''name'' None = Inr rows
         \<and> count_list rows [PStr ''Technology''] = 1"
    by (rule bspec)
  from same mem one show ?thesis
    by (intro conjI)
qed

text \<open>
  Claim C5, as stated, fails: the table itself is not the same after the second call.
  In a new database the first call stores \<open>Technology\<close> under id 1; the second
  deletes that row and stores the name again under id 2.
\<close>

theorem upsert_sectors_twice_new_ids:
  "tbl_sector (snd (insert_or_update_sectors
       (snd (insert_or_update_sectors create_tables (SectorList [''Technology''])))
       (SectorList [''Technology''])))
     = \<lparr>t_rows = [[PInt 2, PStr ''Technology'']], t_seq = 2\<rparr>
   \<and> tbl_sector (snd (insert_or_update_sectors create_tables (SectorList [''Technology''])))
     = \<lparr>t_rows = [[PInt 1, PStr ''Technology'']], t_seq = 1\<rparr>
   \<and> tbl_sector (snd (insert_or_update_sectors
       (snd (insert_or_update_sectors create_tables (SectorList [''Technology''])))
       (SectorList [''Technology''])))
     \<noteq> tbl_sector (snd (insert_or_update_sectors create_tables (SectorList [''Technology''])))"
  by code_simp

section \<open>Properties of the minute-bar provider\<close>

subsection \<open>Decoding a row\<close>

text \<open>
  Claim C4. For every row, \<open>row_to_bar\<close> never returns a bar that violates
  \<open>low \<le> open, close, high\<close> and \<open>high \<ge> open, close, low\<close>; and when the six columns
  parse and the parsed prices violate these, it returns the failure text as a value,
  neither raising nor returning a bar.
\<close>

theorem row_to_bar_validates:
  "(row_to_bar env row = Inr (RBar b) \<longrightarrow> bar_ok b)
   \<and> (parse_row env row = Inr (date, c, h, l, op, v) \<and> \<not> ohlc_ok op h l c
        \<longrightarrow> row_to_bar env row = Inr RFailure)"
  by (auto simp: row_to_bar_def and_then_def Bar_def bar_ok_def split: sum.splits if_splits)

theorem row_to_bar_validates_witness:
  "row_to_bar utc_env ''1000000000,1.0,2.0,0.5,1.5,100'' =
     Inr (RBar \<lparr>get_date_time = \<lparr>dt_seconds = 1000000000, dt_microsecond = 0\<rparr>,
                get_open = 3 / 2, get_high = 2, get_low = 1 / 2, get_close = 1,
                get_volume = 100, get_adj_close = 1\<rparr>)
   \<and> bar_ok \<lparr>get_date_time = \<lparr>dt_seconds = 1000000000, dt_microsecond = 0\<rparr>,
              get_open = 3 / 2, get_high = 2, get_low = 1 / 2, get_close = (1::rat),
              get_volume = 100, get_adj_close = 1\<rparr>
   \<and> parse_row utc_env ''1000000000,1.0,2.0,1.5,1.5,100'' =
       Inr (\<lparr>dt_seconds = 1000000000, dt_microsecond = 0\<rparr>, 1, 2, 3 / 2, 3 / 2, 100)
   \<and> \<not> ohlc_ok (3 / 2) 2 (3 / 2) (1::rat)
   \<and> row_to_bar utc_env ''1000000000,1.0,2.0,1.5,1.5,100'' = Inr RFailure"
proof -
  let ?b = "\<lparr>get_date_time = \<lparr>dt_seconds = 1000000000, dt_microsecond = 0\<rparr>,
             get_open = 3 / 2, get_high = 2, get_low = 1 / 2, get_close = (1::rat),
             get_volume = 100, get_adj_close = 1\<rparr>"
  have good: "row_to_bar utc_env ''1000000000,1.0,2.0,0.5,1.5,100'' = Inr (RBar ?b)"
    by code_simp
  have parsed: "parse_row utc_env ''1000000000,1.0,2.0,1.5,1.5,100'' =
      Inr (\<lparr>dt_seconds = 1000000000, dt_microsecond = 0\<rparr>, 1, 2, 3 / 2, 3 / 2, 100)"
    by code_simp
  have bad: "\<not> ohlc_ok (3 / 2) 2 (3 / 2) (1::rat)"
    by (simp add: ohlc_ok_def)
  from row_to_bar_validates [of utc_env "''1000000000,1.0,2.0,0.5,1.5,100''" ?b] good
  have ok: "bar_ok ?b" by blast
  from row_to_bar_validates [of utc_env "''1000000000,1.0,2.0,1.5,1.5,100''" _
      "\<lparr>dt_seconds = 1000000000, dt_microsecond = 0\<rparr>" 1 2 "3 / 2" "3 / 2" 100] parsed bad
  have "row_to_bar utc_env ''1000000000,1.0,2.0,1.5,1.5,100'' = Inr RFailure" by blast
  with good ok parsed bad show ?thesis by blast
qed

subsection \<open>Rows and their columns\<close>

text \<open>
  Splitting what was joined gives the columns back when no column holds the separator,
  and \<open>int\<close> reads back what \<open>'%i'\<close> printed.
\<close>

lemma split_sep_not_Nil: "split_sep c s \<noteq> []"
  by (induction s) (auto split: list.splits)

lemma split_sep_no_sep: "c \<notin> set x \<Longrightarrow> split_sep c x = [x]"
  by (induction x) auto

lemma split_sep_append: "c \<notin> set x \<Longrightarrow> split_sep c (x @ c # rest) = x # split_sep c rest"
  by (induction x) auto

lemma split_sep_join:
  "fs \<noteq> [] \<Longrightarrow> list_all (\<lambda>f. c \<notin> set f) fs \<Longrightarrow> split_sep c (join [c] fs) = fs"
  by (induction "[c]" fs rule: join.induct) (auto simp: split_sep_no_sep split_sep_append)

lemma digit_char_cases:
  "0 \<le> d \<Longrightarrow> d < 10 \<Longrightarrow> is_digit (digit_char d) \<and> digit_val (digit_char d) = d"
proof -
  assume "0 \<le> d" "d < 10"
  then have "d \<in> set [0, 1, 2, 3, 4, 5, 6, 7, 8, 9]"
    by simp arith
  moreover have "list_all (\<lambda>d. is_digit (digit_char d) \<and> digit_val (digit_char d) = d)
      [0, 1, 2, 3, 4, 5, 6, 7, 8, 9]"
    by code_simp
  ultimately show ?thesis
    unfolding list_all_iff by blast
qed

lemma digits_val_snoc: "digits_val (ds @ [c]) = 10 * digits_val ds + digit_val c"
  by (simp add: digits_val_def)

lemma show_nat_digits:
  "0 \<le> n \<Longrightarrow> show_nat n \<noteq> [] \<and> list_all is_digit (show_nat n) \<and> digits_val (show_nat n) = n"
proof (induction n rule: show_nat.induct)
  case (1 n)
  show ?case
  proof (cases "n < 10")
    case True
    with "1.prems" digit_char_cases [of n] show ?thesis
      by (simp add: show_nat.simps [of n] digits_val_def)
  next
    case False
    with "1.prems" "1.IH" digit_char_cases [of "n mod 10"] show ?thesis
      by (simp add: show_nat.simps [of n] digits_val_snoc)
  qed
qed

lemma is_digit_plain:
  "is_digit c \<Longrightarrow> \<not> is_space c \<and> c \<noteq> CHR ''-'' \<and> c \<noteq> CHR ''+'' \<and> c \<noteq> CHR '',''"
  by (auto simp: is_digit_def is_space_def)

lemma strip_no_space: "list_all (\<lambda>c. \<not> is_space c) s \<Longrightarrow> strip s = s"
proof -
  have keep: "dropWhile is_space t = t" if "list_all (\<lambda>c. \<not> is_space c) t" for t
    using that by (cases t) auto
  assume a: "list_all (\<lambda>c. \<not> is_space c) s"
  then have "list_all (\<lambda>c. \<not> is_space c) (rev s)" by (simp add: list_all_iff)
  with a keep show ?thesis by (simp add: strip_def)
qed

lemma show_int_chars:
  "list_all (\<lambda>c. \<not> is_space c \<and> c \<noteq> CHR '','') (show_int n)"
proof -
  have "list_all (\<lambda>c. \<not> is_space c \<and> c \<noteq> CHR '','') (show_nat m)" if "0 \<le> m" for m
    using show_nat_digits [OF that] is_digit_plain by (auto simp: list_all_iff)
  then show ?thesis
    by (auto simp: show_int_def is_space_def)
qed

lemma int_of_str_show_int: "int_of_str (show_int n) = Inr n"
proof -
  have strip: "strip (show_int n) = show_int n"
    using show_int_chars [of n] by (intro strip_no_space) (auto simp: list_all_iff)
  show ?thesis
  proof (cases "n < 0")
    case True
    then have "0 \<le> - n" by simp
    from show_nat_digits [OF this] True strip show ?thesis
      by (simp add: int_of_str_def show_int_def Let_def)
  next
    case False
    then have nn: "0 \<le> n" by simp
    from show_nat_digits [OF nn] obtain c cs where cs: "show_nat n = c # cs"
      by (cases "show_nat n") auto
    with show_nat_digits [OF nn] have "is_digit c" by simp
    then have "c \<noteq> CHR ''-''" "c \<noteq> CHR ''+''" using is_digit_plain by auto
    with show_nat_digits [OF nn] False strip cs show ?thesis
      by (simp add: int_of_str_def show_int_def Let_def)
  qed
qed


text \<open>
  The date column that \<open>bar_to_row\<close> writes is read back whenever \<open>fromtimestamp\<close>
  accepts the epoch seconds written; when it raises \<open>ValueError\<close> the text goes to
  \<open>strptime\<close>, and any other exception leaves \<open>row_to_bar\<close>.
\<close>

lemma parse_date_show_int:
  "fromtimestamp env n = Inr d \<Longrightarrow> parse_date env (show_int n) = Inr d"
  by (simp add: parse_date_def int_of_str_show_int and_then_def)

lemma parse_date_show_int_eq:
  "parse_date env (show_int n) =
     (case fromtimestamp env n of
        Inl e \<Rightarrow> (if e = ValueError then strptime env (show_int n) else Inl e)
      | Inr d \<Rightarrow> Inr d)"
  by (simp add: parse_date_def int_of_str_show_int and_then_def)

subsection \<open>Encoding and decoding again\<close>

text \<open>
  Claim C1, as amended. Let \<open>'%i'\<close> format the volume of a bar as \<open>vt\<close>, let that
  text and the four prices formatted by \<open>'%.2f'\<close> hold no comma, let the date column
  that \<open>bar_to_row\<close> writes, the epoch seconds of the bar's date, be read back as some
  date by lines 35-38 of \<open>row_to_bar\<close>, let the formatted prices and volume read back
  through \<open>float\<close> as \<open>op\<close>, \<open>h\<close>, \<open>l\<close>, \<open>c\<close>, \<open>v\<close>, and let these satisfy the invariant
  of a bar. Then \<open>bar_to_row\<close> gives a row and \<open>row_to_bar\<close> of that row gives a bar:
  its open, high, low, close and volume are the values read back, and its adjusted
  close is its close, the row having no column for the adjusted close of the bar
  encoded. Which date the decoded bar has is left open.
\<close>

theorem bar_round_trip:
  assumes vol: "fmt_i env (get_volume b) = Inr vt"
      and commas: "list_all (\<lambda>f. CHR '','' \<notin> set f)
                     [fmt_2f env (get_close b), fmt_2f env (get_high b), fmt_2f env (get_low b),
                      fmt_2f env (get_open b), vt]"
      and date: "parse_date env (show_int (timegm_timetuple (get_date_time b))) = Inr d"
      and reads: "float_of_str env (fmt_2f env (get_close b)) = Inr c"
                 "float_of_str env (fmt_2f env (get_high b)) = Inr h"
                 "float_of_str env (fmt_2f env (get_low b)) = Inr l"
                 "float_of_str env (fmt_2f env (get_open b)) = Inr op"
                 "float_of_str env vt = Inr v"
      and valid: "ohlc_ok op h l c" "0 \<le> v"
  shows "\<exists>row d'. bar_to_row env b = Inr row
           \<and> row_to_bar env row =
               Inr (RBar \<lparr>get_date_time = d', get_open = op, get_high = h, get_low = l,
                          get_close = c, get_volume = v, get_adj_close = c\<rparr>)"
proof -
  let ?fs = "[show_int (timegm_timetuple (get_date_time b)),
              fmt_2f env (get_close b), fmt_2f env (get_high b), fmt_2f env (get_low b),
              fmt_2f env (get_open b), vt]"
  have enc: "bar_to_row env b = Inr (join '','' ?fs)"
    using vol by (simp add: bar_to_row_def and_then_def)
  have "list_all (\<lambda>f. CHR '','' \<notin> set f) ?fs"
    using commas show_int_chars [of "timegm_timetuple (get_date_time b)"]
    by (auto simp: list_all_iff)
  then have split: "split_sep CHR '','' (join '','' ?fs) = ?fs"
    by (intro split_sep_join) simp_all
  have parsed: "parse_row env (join '','' ?fs) = Inr (d, c, h, l, op, v)"
    using reads date
    by (simp only: parse_row_def split Let_def)
       (simp add: float_col_def getitem_def and_then_def)
  have "row_to_bar env (join '','' ?fs) =
               Inr (RBar \<lparr>get_date_time = d, get_open = op, get_high = h, get_low = l,
                          get_close = c, get_volume = v, get_adj_close = c\<rparr>)"
    using parsed valid by (simp add: row_to_bar_def Bar_def and_then_def)
  with enc show ?thesis by blast
qed

theorem bar_round_trip_witness:
  "fmt_i utc_env 100 = Inr ''100''
   \<and> list_all (\<lambda>f. CHR '','' \<notin> set f)
        [fmt_2f utc_env 1, fmt_2f utc_env 2, fmt_2f utc_env (1 / 2), fmt_2f utc_env (3 / 2), ''100'']
   \<and> parse_date utc_env (show_int 1000000000)
       = Inr \<lparr>dt_seconds = 1000000000, dt_microsecond = 0\<rparr>
   \<and> float_of_str utc_env (fmt_2f utc_env 1) = Inr 1
   \<and> float_of_str utc_env (fmt_2f utc_env 2) = Inr 2
   \<and> float_of_str utc_env (fmt_2f utc_env (1 / 2)) = Inr (1 / 2)
   \<and> float_of_str utc_env (fmt_2f utc_env (3 / 2)) = Inr (3 / 2)
   \<and> float_of_str utc_env ''100'' = Inr 100
   \<and> ohlc_ok (3 / 2) 2 (1 / 2) (1::rat) \<and> (0::rat) \<le> 100
   \<and> (\<exists>row d'.
         bar_to_row utc_env
           \<lparr>get_date_time = \<lparr>dt_seconds = 1000000000, dt_microsecond = 250000\<rparr>,
            get_open = 3 / 2, get_high = 2, get_low = 1 / 2, get_close = 1,
            get_volume = 100, get_adj_close = 7 / 10\<rparr> = Inr row
         \<and> row_to_bar utc_env row =
             Inr (RBar \<lparr>get_date_time = d', get_open = 3 / 2, get_high = 2, get_low = 1 / 2,
                        get_close = 1, get_volume = 100, get_adj_close = 1\<rparr>))"
proof -
  let ?b = "\<lparr>get_date_time = \<lparr>dt_seconds = 1000000000, dt_microsecond = 250000\<rparr>,
            get_open = 3 / 2, get_high = 2, get_low = 1 / 2, get_close = (1::rat),
            get_volume = 100, get_adj_close = 7 / 10\<rparr>"
  have vol: "fmt_i utc_env 100 = Inr ''100''"
    by code_simp
  have commas: "list_all (\<lambda>f. CHR '','' \<notin> set f)
      [fmt_2f utc_env 1, fmt_2f utc_env 2, fmt_2f utc_env (1 / 2), fmt_2f utc_env (3 / 2), ''100'']"
    by code_simp
  have date: "parse_date utc_env (show_int 1000000000)
      = Inr \<lparr>dt_seconds = 1000000000, dt_microsecond = 0\<rparr>"
    by code_simp
  have c: "float_of_str utc_env (fmt_2f utc_env 1) = Inr 1"
    by code_simp
  have h: "float_of_str utc_env (fmt_2f utc_env 2) = Inr 2"
    by code_simp
  have l: "float_of_str utc_env (fmt_2f utc_env (1 / 2)) = Inr (1 / 2)"
    by code_simp
  have op: "float_of_str utc_env (fmt_2f utc_env (3 / 2)) = Inr (3 / 2)"
    by code_simp
  have v: "float_of_str utc_env ''100'' = Inr 100"
    by code_simp
  have ok: "ohlc_ok (3 / 2) 2 (1 / 2) (1::rat)" "(0::rat) \<le> 100"
    by (simp_all add: ohlc_ok_def)
  have "\<exists>row d'. bar_to_row utc_env ?b = Inr row
         \<and> row_to_bar utc_env row =
             Inr (RBar \<lparr>get_date_time = d', get_open = 3 / 2, get_high = 2, get_low = 1 / 2,
                        get_close = 1, get_volume = 100, get_adj_close = 1\<rparr>)"
  proof (rule bar_round_trip [where b = "?b" and vt = "''100''"])
    show "fmt_i utc_env (get_volume ?b) = Inr ''100''"
      using vol by simp
    show "list_all (\<lambda>f. CHR '','' \<notin> set f)
        [fmt_2f utc_env (get_close ?b), fmt_2f utc_env (get_high ?b), fmt_2f utc_env (get_low ?b),
         fmt_2f utc_env (get_open ?b), ''100'']"
      using commas by simp
    show "parse_date utc_env (show_int (timegm_timetuple (get_date_time ?b)))
        = Inr \<lparr>dt_seconds = 1000000000, dt_microsecond = 0\<rparr>"
      using date by (simp add: timegm_timetuple_def)
    show "float_of_str utc_env (fmt_2f utc_env (get_close ?b)) = Inr 1"
      using c by simp
    show "float_of_str utc_env (fmt_2f utc_env (get_high ?b)) = Inr 2"
      using h by simp
    show "float_of_str utc_env (fmt_2f utc_env (get_low ?b)) = Inr (1 / 2)"
      using l by simp
    show "float_of_str utc_env (fmt_2f utc_env (get_open ?b)) = Inr (3 / 2)"
      using op by simp
    show "float_of_str utc_env ''100'' = Inr 100"
      by (rule v)
    show "ohlc_ok (3 / 2) 2 (1 / 2) (1::rat)" "(0::rat) \<le> 100"
      by (rule ok)+
  qed
  with vol commas date c h l op v ok show ?thesis
    by (intro conjI)
qed

text \<open>
  Claim C1, as stated, fails on a bar whose adjusted close is not its close: on a host
  in UTC the bar of 1970-01-01 00:00:00 with open, high, low and close 1, volume 0 and
  adjusted close 2 satisfies the invariant, is encoded as \<open>0,1.00,1.00,1.00,1.00,0\<close>,
  and is decoded to a bar with adjusted close 1.
\<close>

theorem bar_round_trip_loses_adj_close:
  "bar_ok \<lparr>get_date_time = \<lparr>dt_seconds = 0, dt_microsecond = 0\<rparr>, get_open = 1, get_high = 1,
           get_low = 1, get_close = (1::rat), get_volume = 0, get_adj_close = 2\<rparr>
   \<and> bar_to_row utc_env
        \<lparr>get_date_time = \<lparr>dt_seconds = 0, dt_microsecond = 0\<rparr>, get_open = 1, get_high = 1,
         get_low = 1, get_close = 1, get_volume = 0, get_adj_close = 2\<rparr>
       = Inr ''0,1.00,1.00,1.00,1.00,0''
   \<and> row_to_bar utc_env ''0,1.00,1.00,1.00,1.00,0''
       = Inr (RBar \<lparr>get_date_time = \<lparr>dt_seconds = 0, dt_microsecond = 0\<rparr>, get_open = 1,
                    get_high = 1, get_low = 1, get_close = 1, get_volume = 0, get_adj_close = 1\<rparr>)
   \<and> fmt_2f utc_env 1 = ''1.00'' \<and> fmt_2f utc_env 2 = ''2.00''"
  by code_simp

text \<open>
  The date column is written by \<open>calendar.timegm\<close>, which reads the date as UTC, and
  read by \<open>datetime.fromtimestamp\<close>, which gives local time. Five hours behind UTC
  the bar of 2013-01-02 09:30:00 comes back as 2013-01-02 04:30:00.
\<close>

lemma bar_round_trip_local_date:
  "bar_to_row est_env
        \<lparr>get_date_time = \<lparr>dt_seconds = 1357119000, dt_microsecond = 0\<rparr>, get_open = 1,
         get_high = 1, get_low = 1, get_close = 1, get_volume = 0, get_adj_close = 1\<rparr>
       = Inr ''1357119000,1.00,1.00,1.00,1.00,0''
   \<and> row_to_bar est_env ''1357119000,1.00,1.00,1.00,1.00,0''
       = Inr (RBar \<lparr>get_date_time = \<lparr>dt_seconds = 1357101000, dt_microsecond = 0\<rparr>,
                    get_open = 1, get_high = 1, get_low = 1, get_close = 1, get_volume = 0,
                    get_adj_close = 1\<rparr>)
   \<and> utc_strftime \<lparr>dt_seconds = 1357119000, dt_microsecond = 0\<rparr> = Inr ''2013-01-02 09:30:00''
   \<and> utc_strftime \<lparr>dt_seconds = 1357101000, dt_microsecond = 0\<rparr> = Inr ''2013-01-02 04:30:00''"
  by code_simp

subsection \<open>Cleaning the downloaded payloads\<close>

lemma getitem_split_sep_0: "getitem (split_sep c s) 0 = Inr (hd (split_sep c s))"
  using split_sep_not_Nil [of c s] by (cases "split_sep c s") (auto simp: getitem_def)

lemma scan_header_plain:
  "list_all (\<lambda>l. \<not> startswith ''error'' l \<and> \<not> startswith ''volume'' l) ls
     \<Longrightarrow> scan_header nm ls = ([], Inr (False, None))"
  by (induction ls) auto

lemma convert_row_not_int:
  "int_of_str (hd (split_sep CHR '','' l)) = Inl e \<Longrightarrow> convert_row env l = Inl e"
  by (simp add: convert_row_def getitem_split_sep_0 and_then_def Let_def)

lemma convert_rows_not_int:
  "list_ex (\<lambda>l. int_of_str (hd (split_sep CHR '','' l)) = Inl ValueError) ls
     \<Longrightarrow> \<exists>e. convert_rows env ls = Inl e"
proof (induction ls)
  case Nil
  then show ?case by simp
next
  case (Cons l ls)
  show ?case
  proof (cases "convert_row env l")
    case (Inl e)
    then show ?thesis by (simp add: and_then_def)
  next
    case (Inr r)
    with Cons.prems convert_row_not_int [of l ValueError env]
    have "list_ex (\<lambda>l. int_of_str (hd (split_sep CHR '','' l)) = Inl ValueError) ls"
      by auto
    with Cons.IH obtain e where "convert_rows env ls = Inl e" by blast
    with Inr show ?thesis by (simp add: and_then_def)
  qed
qed

lemma error_flag_skips:
  "scan_header (symbol_from_file_path env file_path) (split_sep (CHR 0x0A) (strip data))
     = (lg, Inr (True, kept))
   \<Longrightarrow> process_one env now (data, file_path) = (lg, Continues)"
  by (simp add: process_one_def Let_def)

text \<open>
  A row whose date \<open>strftime\<close> refuses is one more way for the conversion to fail:
  on the host in UTC the last second of 1899 drops the symbol-day.
\<close>

lemma row_before_1900_dropped:
  "process_one utc_env (12, 0, 0, 0) (''-2208988801,1.0,2.0,0.5,1.5,100'', ''ABC.csv'')
     = ([ErrorConverting ''ABC.csv'' ValueError], Continues)
   \<and> process_one utc_env (12, 0, 0, 0) (''-2208988800,1.0,2.0,0.5,1.5,100'', ''ABC.csv'')
     = ([], Yields ([''1900-01-01 00:00:00,1.0,2.0,0.5,1.5,100''], ''ABC.csv''))"
  by code_simp

text \<open>
  Claim C7. A payload with a line that starts with \<open>error\<close> should give no rows, be
  reported, and leave the generator running. When that line is the last one,
  \<open>data_rows[i+1]\<close> raises \<open>IndexError\<close> out of the generator: nothing is printed for the
  payload, and the payload after it, which is sound, is never processed.
\<close>

theorem error_line_last_aborts:
  "process_downloaded_data utc_env (\<lambda>n. (12, 0, 0, 0))
     [(''error'', ''ABC.csv''), (''1000000000,1.0,2.0,0.5,1.5,100'', ''XYZ.csv'')]
   = ([], [], Some IndexError)"
  by code_simp

text \<open>With the message line present the payload is skipped and the next one is yielded.\<close>

lemma error_block_skipped:
  "process_downloaded_data utc_env (\<lambda>n. (12, 0, 0, 0))
     [(''error'' @ [CHR 0x0A] @ ''message:rate limited'' @ [CHR 0x0A], ''ABC.csv''),
      (''1000000000,1.0,2.0,0.5,1.5,100'', ''XYZ.csv'')]
   = ([([''2001-09-09 01:46:40,1.0,2.0,0.5,1.5,100''], ''XYZ.csv'')],
      [ErrorDownloading ''ABC.csv'' ''rate limited''], None)"
  by code_simp

text \<open>
  Claim C8. When the rows of a symbol-day have been cleaned, the generator yields them
  without the last one if there is more than one row and the time read lies strictly
  between 09:30 and 16:00; with one row, or at any other time, it yields them all.
\<close>

theorem live_window_withholding:
  assumes "scan_header (symbol_from_file_path env file_path) (split_sep (CHR 0x0A) (strip data))
             = (lg, Inr (False, kept))"
      and "convert_rows env (case kept of None \<Rightarrow> split_sep (CHR 0x0A) (strip data) | Some rs \<Rightarrow> rs)
             = Inr rows"
  shows "process_one env now (data, file_path) =
           (lg, Yields (if 1 < length rows \<and> time_less (9, 30, 0, 0) now \<and> time_less now (16, 0, 0, 0)
                        then butlast rows else rows, file_path))"
  using assms by (simp add: process_one_def withhold_latest_def Let_def)

theorem live_window_withholding_witness:
  "scan_header (symbol_from_file_path utc_env ''ABC.csv'')
       (split_sep (CHR 0x0A) (strip (''junk'' @ [CHR 0x0A] @ ''volume,date'' @ [CHR 0x0A]
          @ ''1000000000,1.0,2.0,0.5,1.5,100'' @ [CHR 0x0A]
          @ ''1000000060,1.5,2.5,1.0,1.0,200'' @ [CHR 0x0A])))
     = ([], Inr (False, Some [''1000000000,1.0,2.0,0.5,1.5,100'', ''1000000060,1.5,2.5,1.0,1.0,200'']))
   \<and> convert_rows utc_env [''1000000000,1.0,2.0,0.5,1.5,100'', ''1000000060,1.5,2.5,1.0,1.0,200'']
     = Inr [''2001-09-09 01:46:40,1.0,2.0,0.5,1.5,100'', ''2001-09-09 01:47:40,1.5,2.5,1.0,1.0,200'']
   \<and> process_one utc_env (10, 0, 0, 0)
        (''junk'' @ [CHR 0x0A] @ ''volume,date'' @ [CHR 0x0A]
          @ ''1000000000,1.0,2.0,0.5,1.5,100'' @ [CHR 0x0A]
          @ ''1000000060,1.5,2.5,1.0,1.0,200'' @ [CHR 0x0A], ''ABC.csv'')
     = ([], Yields ([''2001-09-09 01:46:40,1.0,2.0,0.5,1.5,100''], ''ABC.csv''))
   \<and> process_one utc_env (16, 0, 0, 0)
        (''junk'' @ [CHR 0x0A] @ ''volume,date'' @ [CHR 0x0A]
          @ ''1000000000,1.0,2.0,0.5,1.5,100'' @ [CHR 0x0A]
          @ ''1000000060,1.5,2.5,1.0,1.0,200'' @ [CHR 0x0A], ''ABC.csv'')
     = ([], Yields ([''2001-09-09 01:46:40,1.0,2.0,0.5,1.5,100'',
                     ''2001-09-09 01:47:40,1.5,2.5,1.0,1.0,200''], ''ABC.csv''))"
proof -
  let ?data = "''junk'' @ [CHR 0x0A] @ ''volume,date'' @ [CHR 0x0A]
          @ ''1000000000,1.0,2.0,0.5,1.5,100'' @ [CHR 0x0A]
          @ ''1000000060,1.5,2.5,1.0,1.0,200'' @ [CHR 0x0A]"
  let ?raw = "[''1000000000,1.0,2.0,0.5,1.5,100'', ''1000000060,1.5,2.5,1.0,1.0,200'']"
  let ?rows = "[''2001-09-09 01:46:40,1.0,2.0,0.5,1.5,100'', ''2001-09-09 01:47:40,1.5,2.5,1.0,1.0,200'']"
  have scan: "scan_header (symbol_from_file_path utc_env ''ABC.csv'')
      (split_sep (CHR 0x0A) (strip ?data)) = ([], Inr (False, Some ?raw))"
    by code_simp
  have conv: "convert_rows utc_env ?raw = Inr ?rows"
    by code_simp
  have conv': "convert_rows utc_env
      (case Some ?raw of None \<Rightarrow> split_sep (CHR 0x0A) (strip ?data) | Some rs \<Rightarrow> rs) = Inr ?rows"
    using conv by simp
  from live_window_withholding [OF scan conv', of "(10, 0, 0, 0)"]
  have inside: "process_one utc_env (10, 0, 0, 0) (?data, ''ABC.csv'')
      = ([], Yields ([''2001-09-09 01:46:40,1.0,2.0,0.5,1.5,100''], ''ABC.csv''))"
    by simp
  from live_window_withholding [OF scan conv', of "(16, 0, 0, 0)"]
  have outside: "process_one utc_env (16, 0, 0, 0) (?data, ''ABC.csv'')
      = ([], Yields (?rows, ''ABC.csv''))"
    by simp
  from scan conv inside outside show ?thesis
    by (intro conjI)
qed

text \<open>
  Claim C10. When no line of the payload starts with \<open>error\<close> or with \<open>volume\<close>, no
  line is dropped as a header: every line goes to the date conversion, the symbol-day
  is yielded when all of them convert, and it is dropped when one does not; a line
  whose first column is not an integer is enough for that.
\<close>

theorem headerless_payload_all_lines_converted:
  assumes "list_all (\<lambda>l. \<not> startswith ''error'' l \<and> \<not> startswith ''volume'' l)
             (split_sep (CHR 0x0A) (strip data))"
  shows "process_one env now (data, file_path) =
           (case convert_rows env (split_sep (CHR 0x0A) (strip data)) of
              Inl e \<Rightarrow> ([ErrorConverting (symbol_from_file_path env file_path) e], Continues)
            | Inr rows \<Rightarrow> ([], Yields (withhold_latest now rows, file_path)))
         \<and> (list_ex (\<lambda>l. int_of_str (hd (split_sep CHR '','' l)) = Inl ValueError)
               (split_sep (CHR 0x0A) (strip data))
             \<longrightarrow> snd (process_one env now (data, file_path)) = Continues)"
proof -
  let ?ls = "split_sep (CHR 0x0A) (strip data)"
  have scan: "scan_header (symbol_from_file_path env file_path) ?ls = ([], Inr (False, None))"
    using assms by (rule scan_header_plain)
  have one: "process_one env now (data, file_path) =
           (case convert_rows env ?ls of
              Inl e \<Rightarrow> ([ErrorConverting (symbol_from_file_path env file_path) e], Continues)
            | Inr rows \<Rightarrow> ([], Yields (withhold_latest now rows, file_path)))"
    using scan by (simp add: process_one_def Let_def split: sum.splits)
  have two: "snd (process_one env now (data, file_path)) = Continues"
    if "list_ex (\<lambda>l. int_of_str (hd (split_sep CHR '','' l)) = Inl ValueError) ?ls"
  proof -
    from that obtain e where "convert_rows env ?ls = Inl e"
      using convert_rows_not_int by blast
    with one show ?thesis by simp
  qed
  from one two show ?thesis by blast
qed

theorem headerless_payload_all_lines_converted_witness:
  "list_all (\<lambda>l. \<not> startswith ''error'' l \<and> \<not> startswith ''volume'' l)
     (split_sep (CHR 0x0A) (strip (''Date,Close'' @ [CHR 0x0A] @ ''1000000000,1.0,2.0,0.5,1.5,100'')))
   \<and> list_ex (\<lambda>l. int_of_str (hd (split_sep CHR '','' l)) = Inl ValueError)
       (split_sep (CHR 0x0A) (strip (''Date,Close'' @ [CHR 0x0A] @ ''1000000000,1.0,2.0,0.5,1.5,100'')))
   \<and> process_one utc_env (12, 0, 0, 0)
        (''Date,Close'' @ [CHR 0x0A] @ ''1000000000,1.0,2.0,0.5,1.5,100'', ''ABC.csv'')
     = ([ErrorConverting ''ABC.csv'' ValueError], Continues)"
proof -
  let ?data = "''Date,Close'' @ [CHR 0x0A] @ ''1000000000,1.0,2.0,0.5,1.5,100''"
  have plain: "list_all (\<lambda>l. \<not> startswith ''error'' l \<and> \<not> startswith ''volume'' l)
      (split_sep (CHR 0x0A) (strip ?data))"
    by code_simp
  have bad: "list_ex (\<lambda>l. int_of_str (hd (split_sep CHR '','' l)) = Inl ValueError)
      (split_sep (CHR 0x0A) (strip ?data))"
    by code_simp
  have conv: "convert_rows utc_env (split_sep (CHR 0x0A) (strip ?data)) = Inl ValueError"
    by code_simp
  from headerless_payload_all_lines_converted [OF plain, of utc_env "(12, 0, 0, 0)" "''ABC.csv''"] conv
  have "process_one utc_env (12, 0, 0, 0) (?data, ''ABC.csv'')
      = ([ErrorConverting ''ABC.csv'' ValueError], Continues)"
    by (simp add: utc_env_def)
  with plain bad show ?thesis
    by (intro conjI)
qed

end
